theory Spec2Isabelle
  imports Main "HOL-Library.Sublist"
begin

section \<open>Data model\<close>

subsection \<open>Parsed manifests\<close>

text \<open>
  The value \<^verbatim>\<open>JSON.parse\<close> returns for the text of a manifest. Numbers are kept as
  integers: the program only ever tests a number for truthiness, that is for being zero.
  An object is an association list read with \<open>map_of\<close>. \<open>JUndefined\<close> is what reading a
  missing property yields; \<^verbatim>\<open>JSON.parse\<close> itself never returns it.
\<close>

datatype jsval =
    JUndefined
  | JNull
  | JBool bool
  | JNum int
  | JStr string
  | JArr "jsval list"
  | JObj "(string \<times> jsval) list"

text \<open>JavaScript truthiness, as used by \<^verbatim>\<open>if (v)\<close>, \<^verbatim>\<open>!v\<close> and \<^verbatim>\<open>a && b\<close>.\<close>

fun truthy :: "jsval \<Rightarrow> bool" where
  "truthy JUndefined = False"
| "truthy JNull = False"
| "truthy (JBool b) = b"
| "truthy (JNum n) = (n \<noteq> 0)"
| "truthy (JStr s) = (s \<noteq> [])"
| "truthy (JArr xs) = True"
| "truthy (JObj kvs) = True"

text \<open>
  Property access \<^verbatim>\<open>v.name\<close> / \<^verbatim>\<open>v[name]\<close>. \<open>None\<close> is the TypeError thrown on \<^verbatim>\<open>null\<close> and
  \<^verbatim>\<open>undefined\<close>. Properties inherited from a prototype are not modelled: the program reads
  only \<^verbatim>\<open>workspaces\<close>, \<^verbatim>\<open>packageManager\<close>, \<^verbatim>\<open>scripts\<close> and the names of its commands,
  none of which is a property of a built-in prototype.
\<close>

fun getProp :: "jsval \<Rightarrow> string \<Rightarrow> jsval option" where
  "getProp JUndefined name = None"
| "getProp JNull name = None"
| "getProp (JObj kvs) name =
     Some (case map_of kvs name of None \<Rightarrow> JUndefined | Some v \<Rightarrow> v)"
| "getProp v name = Some JUndefined"

subsection \<open>Paths and the file system\<close>

text \<open>
  An absolute, normalised POSIX path (what \<^verbatim>\<open>process.cwd()\<close> returns, and what
  \<^verbatim>\<open>path.dirname\<close> and \<^verbatim>\<open>path.join\<close> keep) is the list of its components; the root
  \<^verbatim>\<open>/\<close> is the empty list. \<open>render\<close> is the string the program holds.
\<close>

type_synonym path = "string list"

definition root :: path where
  "root = []"

definition dirname :: "path \<Rightarrow> path" where
  "dirname p = butlast p"

definition pathJoin :: "path \<Rightarrow> string \<Rightarrow> path" where
  "pathJoin dir file = dir @ [file]"

definition render :: "path \<Rightarrow> string" where
  "render p = (if p = [] then ''/'' else concat (map (\<lambda>c. ''/'' @ c) p))"

text \<open>\<^verbatim>\<open>a.startsWith(b)\<close> on the rendered strings.\<close>

definition startsWith :: "path \<Rightarrow> path \<Rightarrow> bool" where
  "startsWith a b = prefix (render b) (render a)"

text \<open>
  A file-system entry is a directory or a file; of a file only what \<^verbatim>\<open>JSON.parse\<close> makes
  of its text matters (\<open>None\<close> when parsing throws).
\<close>

datatype node = Dir | File "jsval option"

type_synonym filesystem = "path \<rightharpoonup> node"

definition existsSync :: "filesystem \<Rightarrow> path \<Rightarrow> bool" where
  "existsSync fs p = (fs p \<noteq> None)"

text \<open>
  \<^verbatim>\<open>JSON.parse(fs.readFileSync(p, 'utf8'))\<close>: \<open>None\<close> when either call throws (no such
  file, a directory, text that is not JSON).
\<close>

definition readJson :: "filesystem \<Rightarrow> path \<Rightarrow> jsval option" where
  "readJson fs p = (case fs p of Some (File j) \<Rightarrow> j | _ \<Rightarrow> None)"

subsection \<open>Project structure\<close>

record ProjectStructure =
  localRoot :: path
  monorepoRoot :: "path option"
  gitRoot :: "path option"

datatype PackageManager = Bun | Pnpm | Yarn | Npm

fun managerName :: "PackageManager \<Rightarrow> string" where
  "managerName Bun = ''bun''"
| "managerName Pnpm = ''pnpm''"
| "managerName Yarn = ''yarn''"
| "managerName Npm = ''npm''"

datatype SupportedCommand = Add | Install | Run | Build | Dev | Typecheck | Lint

fun commandName :: "SupportedCommand \<Rightarrow> string" where
  "commandName Add = ''add''"
| "commandName Install = ''install''"
| "commandName Run = ''run''"
| "commandName Build = ''build''"
| "commandName Dev = ''dev''"
| "commandName Typecheck = ''typecheck''"
| "commandName Lint = ''lint''"

section \<open>isMonorepoRoot\<close>

definition monorepoFiles :: "string list" where
  "monorepoFiles = [''pnpm-workspace.yaml'', ''lerna.json'', ''nx.json'', ''rush.json'']"

definition lockFileNames :: "string list" where
  "lockFileNames =
     [''pnpm-lock.yaml'', ''yarn.lock'', ''package-lock.json'', ''bun.lockb'', ''bun.lock'']"

definition hasLockFile :: "filesystem \<Rightarrow> path \<Rightarrow> bool" where
  "hasLockFile fs dir = list_ex (\<lambda>file. existsSync fs (pathJoin dir file)) lockFileNames"

text \<open>The first loop of \<^verbatim>\<open>isMonorepoRoot\<close>: some indicator file exists in \<open>dir\<close>.\<close>

definition hasMonorepoFile :: "filesystem \<Rightarrow> path \<Rightarrow> bool" where
  "hasMonorepoFile fs dir = list_ex (\<lambda>file. existsSync fs (pathJoin dir file)) monorepoFiles"

definition isMonorepoRoot :: "filesystem \<Rightarrow> path \<Rightarrow> bool" where
  "isMonorepoRoot fs dir =
     (if hasMonorepoFile fs dir then True
      else if hasLockFile fs dir then
        (if existsSync fs (pathJoin dir ''package.json'') then
           (case readJson fs (pathJoin dir ''package.json'') of
              None \<Rightarrow> False
            | Some packageJson \<Rightarrow>
                (case getProp packageJson ''workspaces'' of
                   None \<Rightarrow> False
                 | Some workspaces \<Rightarrow> truthy workspaces))
         else False)
      else False)"

section \<open>findProjectStructure\<close>

text \<open>
  The variables of the \<^verbatim>\<open>while\<close> loop. \<open>visited\<close> is not a variable of the source: it
  records the directories the loop body has examined, in order.
\<close>

record walk_vars =
  currentDir :: path
  localRootVar :: "path option"
  gitRootVar :: "path option"
  packageJsonDirs :: "path list"
  visited :: "path list"

text \<open>One execution of the loop body up to the \<^verbatim>\<open>break\<close> test.\<close>

definition examine :: "filesystem \<Rightarrow> walk_vars \<Rightarrow> walk_vars" where
  "examine fs v =
     (let v1 = v\<lparr>visited := visited v @ [currentDir v]\<rparr>;
          v2 = (if existsSync fs (pathJoin (currentDir v1) ''.git'')
                then v1\<lparr>gitRootVar := Some (currentDir v1)\<rparr> else v1);
          v3 = (if existsSync fs (pathJoin (currentDir v2) ''package.json'')
                then v2\<lparr>packageJsonDirs := packageJsonDirs v2 @ [currentDir v2],
                        localRootVar := (if localRootVar v2 = None then Some (currentDir v2)
                                         else localRootVar v2)\<rparr>
                else v2)
      in v3)"

function walk :: "filesystem \<Rightarrow> walk_vars \<Rightarrow> walk_vars" where
  "walk fs v =
     (if currentDir v = root then v
      else (let v' = examine fs v
            in if gitRootVar v' \<noteq> None \<and> packageJsonDirs v' \<noteq> [] then v'
               else walk fs (v'\<lparr>currentDir := dirname (currentDir v')\<rparr>)))"
  by pat_completeness auto
termination
  by (relation "measure (\<lambda>(fs, v). length (currentDir v))")
     (auto simp: examine_def Let_def root_def dirname_def)

text \<open>The \<^verbatim>\<open>for\<close> loop over \<^verbatim>\<open>packageJsonDirs\<close> that picks the monorepo root.\<close>

fun findMonorepoRoot :: "filesystem \<Rightarrow> path option \<Rightarrow> path list \<Rightarrow> path option" where
  "findMonorepoRoot fs gr [] = None"
| "findMonorepoRoot fs gr (dir # dirs) =
     (if (case gr of None \<Rightarrow> False | Some g \<Rightarrow> \<not> startsWith dir g)
      then findMonorepoRoot fs gr dirs
      else if isMonorepoRoot fs dir then Some dir
      else findMonorepoRoot fs gr dirs)"

definition initialVars :: "path \<Rightarrow> walk_vars" where
  "initialVars startDir =
     \<lparr>currentDir = startDir, localRootVar = None, gitRootVar = None,
      packageJsonDirs = [], visited = []\<rparr>"

definition findProjectStructure :: "filesystem \<Rightarrow> path \<Rightarrow> ProjectStructure option" where
  "findProjectStructure fs startDir =
     (let v = walk fs (initialVars startDir)
      in case localRootVar v of
           None \<Rightarrow> None
         | Some l \<Rightarrow>
             Some \<lparr>localRoot = l,
                   monorepoRoot = findMonorepoRoot fs (gitRootVar v) (packageJsonDirs v),
                   gitRoot = gitRootVar v\<rparr>)"

section \<open>detectPackageManager\<close>

record PackageManagerChoice =
  manager :: PackageManager
  reason :: string

text \<open>The lock-file table, in the order \<^verbatim>\<open>Object.entries\<close> enumerates it.\<close>

definition lockFiles :: "(string \<times> PackageManager) list" where
  "lockFiles =
     [(''bun.lockb'', Bun), (''bun.lock'', Bun), (''pnpm-lock.yaml'', Pnpm),
      (''yarn.lock'', Yarn), (''package-lock.json'', Npm)]"

text \<open>\<^verbatim>\<open>[structure.monorepoRoot, structure.localRoot].filter(Boolean)\<close>\<close>

definition searchDirs :: "ProjectStructure \<Rightarrow> path list" where
  "searchDirs structure =
     (case monorepoRoot structure of None \<Rightarrow> [] | Some m \<Rightarrow> [m]) @ [localRoot structure]"

definition location :: "ProjectStructure \<Rightarrow> path \<Rightarrow> string" where
  "location structure dir =
     (if Some dir = monorepoRoot structure then ''monorepo root'' else ''local'')"

text \<open>The inner loop of the first pass: the first lock file of the table present in \<open>dir\<close>.\<close>

fun findLockFile ::
  "filesystem \<Rightarrow> path \<Rightarrow> (string \<times> PackageManager) list \<Rightarrow> (string \<times> PackageManager) option"
where
  "findLockFile fs dir [] = None"
| "findLockFile fs dir ((lockFile, m) # rest) =
     (if existsSync fs (pathJoin dir lockFile) then Some (lockFile, m)
      else findLockFile fs dir rest)"

fun lockFilePass ::
  "filesystem \<Rightarrow> ProjectStructure \<Rightarrow> path list \<Rightarrow> PackageManagerChoice option"
where
  "lockFilePass fs structure [] = None"
| "lockFilePass fs structure (dir # dirs) =
     (case findLockFile fs dir lockFiles of
        Some (lockFile, m) \<Rightarrow>
          Some \<lparr>manager = m,
                reason = lockFile @ '' at '' @ location structure dir @ '' ('' @
                         render (pathJoin dir lockFile) @ '')''\<rparr>
      | None \<Rightarrow> lockFilePass fs structure dirs)"

fun parseManager :: "string \<Rightarrow> PackageManager option" where
  "parseManager s =
     (if s = ''bun'' then Some Bun
      else if s = ''pnpm'' then Some Pnpm
      else if s = ''yarn'' then Some Yarn
      else if s = ''npm'' then Some Npm
      else None)"

text \<open>
  The body of the second loop for one directory: the manager named by the
  \<^verbatim>\<open>packageManager\<close> field, \<open>None\<close> when the loop goes on to the next directory (no
  manifest, an exception swallowed by the \<^verbatim>\<open>catch\<close>, a falsy field, an unknown name).
  A truthy field that is not a string has no \<^verbatim>\<open>split\<close> method: the call throws.
\<close>

definition packageManagerField :: "filesystem \<Rightarrow> path \<Rightarrow> PackageManager option" where
  "packageManagerField fs dir =
     (if existsSync fs (pathJoin dir ''package.json'') then
        (case readJson fs (pathJoin dir ''package.json'') of
           None \<Rightarrow> None
         | Some packageJson \<Rightarrow>
             (case getProp packageJson ''packageManager'' of
                None \<Rightarrow> None
              | Some pm \<Rightarrow>
                  if truthy pm then
                    (case pm of
                       JStr s \<Rightarrow> parseManager (takeWhile (\<lambda>c. c \<noteq> CHR ''@'') s)
                     | _ \<Rightarrow> None)
                  else None))
      else None)"

fun fieldPass ::
  "filesystem \<Rightarrow> ProjectStructure \<Rightarrow> path list \<Rightarrow> PackageManagerChoice option"
where
  "fieldPass fs structure [] = None"
| "fieldPass fs structure (dir # dirs) =
     (case packageManagerField fs dir of
        Some m \<Rightarrow>
          Some \<lparr>manager = m,
                reason = ''packageManager field at '' @ location structure dir @ '' ('' @
                         render (pathJoin dir ''package.json'') @ '')''\<rparr>
      | None \<Rightarrow> fieldPass fs structure dirs)"

definition detectPackageManager :: "filesystem \<Rightarrow> ProjectStructure \<Rightarrow> PackageManagerChoice" where
  "detectPackageManager fs structure =
     (case lockFilePass fs structure (searchDirs structure) of
        Some choice \<Rightarrow> choice
      | None \<Rightarrow>
          (case fieldPass fs structure (searchDirs structure) of
             Some choice \<Rightarrow> choice
           | None \<Rightarrow> \<lparr>manager = Npm, reason = ''fallback''\<rparr>))"

section \<open>getExecutionDirectory and hasScript\<close>

definition hasScript :: "filesystem \<Rightarrow> string \<Rightarrow> path \<Rightarrow> bool" where
  "hasScript fs scriptName dir =
     (if \<not> existsSync fs (pathJoin dir ''package.json'') then False
      else
        (case readJson fs (pathJoin dir ''package.json'') of
           None \<Rightarrow> False
         | Some packageJson \<Rightarrow>
             (case getProp packageJson ''scripts'' of
                None \<Rightarrow> False
              | Some scripts \<Rightarrow>
                  if truthy scripts then
                    (case getProp scripts scriptName of
                       None \<Rightarrow> False
                     | Some script \<Rightarrow> truthy script)
                  else False)))"

definition getExecutionDirectory ::
  "filesystem \<Rightarrow> SupportedCommand \<Rightarrow> ProjectStructure \<Rightarrow> path"
where
  "getExecutionDirectory fs command structure =
     (if commandName command \<in> set [''add'', ''install''] then
        (case monorepoRoot structure of Some m \<Rightarrow> m | None \<Rightarrow> localRoot structure)
      else if commandName command \<in> set [''run'', ''build'', ''dev'', ''typecheck'', ''lint''] then
        (if hasScript fs (commandName command) (localRoot structure) then localRoot structure
         else
           (case monorepoRoot structure of
              Some m \<Rightarrow>
                if hasScript fs (commandName command) m then m else localRoot structure
            | None \<Rightarrow> localRoot structure))
      else localRoot structure)"

section \<open>harmonizeCommand\<close>

text \<open>
  The fatal errors: each is reported on the error stream and ends the process.
  \<open>NoPackageJson\<close> is reported as \<^verbatim>\<open>Error: No package.json found in current directory or
  parent directories.\<close>
\<close>

datatype fatal =
    NoPackageJson
  | UnsupportedCommand string
  | RunRequiresScriptName

text \<open>\<^verbatim>\<open>!firstArg\<close> holds when there is no first argument or it is the empty string.\<close>

fun harmonizeCommand ::
  "SupportedCommand \<Rightarrow> string list \<Rightarrow> PackageManager \<Rightarrow> fatal + string list"
where
  "harmonizeCommand Add args packageManager =
     (if packageManager = Npm then Inr ([''npm'', ''install''] @ args)
      else if packageManager = Yarn then Inr ([''yarn'', ''add''] @ args)
      else if packageManager = Pnpm then Inr ([''pnpm'', ''add''] @ args)
      else if packageManager = Bun then Inr ([''bun'', ''add''] @ args)
      else Inr [])"
| "harmonizeCommand Install args packageManager =
     (if packageManager = Bun \<and> length args > 0 then Inr ([''bun'', ''add''] @ args)
      else Inr ([managerName packageManager, ''install''] @ args))"
| "harmonizeCommand Run args packageManager =
     (if (case args of [] \<Rightarrow> True | firstArg # _ \<Rightarrow> firstArg = [])
      then Inl RunRequiresScriptName
      else Inr ([managerName packageManager, ''run''] @ args))"
| "harmonizeCommand Build args packageManager = Inr [managerName packageManager, ''run'', ''build'']"
| "harmonizeCommand Dev args packageManager = Inr [managerName packageManager, ''run'', ''dev'']"
| "harmonizeCommand Typecheck args packageManager =
     Inr [managerName packageManager, ''run'', ''typecheck'']"
| "harmonizeCommand Lint args packageManager = Inr [managerName packageManager, ''run'', ''lint'']"

section \<open>main\<close>

text \<open>\<^verbatim>\<open>SUPPORTED_COMMANDS.includes(command)\<close>, with the command it names.\<close>

fun parseCommand :: "string \<Rightarrow> SupportedCommand option" where
  "parseCommand s =
     (if s = ''add'' then Some Add
      else if s = ''install'' then Some Install
      else if s = ''run'' then Some Run
      else if s = ''build'' then Some Build
      else if s = ''dev'' then Some Dev
      else if s = ''typecheck'' then Some Typecheck
      else if s = ''lint'' then Some Lint
      else None)"

text \<open>\<^verbatim>\<open>tokens.join(' ')\<close>\<close>

fun joinSpace :: "string list \<Rightarrow> string" where
  "joinSpace [] = []"
| "joinSpace [t] = t"
| "joinSpace (t # ts) = t @ '' '' @ joinSpace ts"

definition newline :: string where
  "newline = [CHR 0x0A]"

definition contextInfo :: "ProjectStructure \<Rightarrow> PackageManagerChoice \<Rightarrow> path \<Rightarrow> string" where
  "contextInfo structure choice executionDir =
     ''Using '' @ managerName (manager choice) @ '' ('' @ reason choice @ '')'' @
     (case monorepoRoot structure of
        None \<Rightarrow> []
      | Some m \<Rightarrow>
          if m \<noteq> localRoot structure then
            newline @ ''Monorepo detected: '' @ render m @
            newline @ ''Local package: '' @ render (localRoot structure) @
            newline @ ''Executing from: '' @ render executionDir
          else []) @
     (case gitRoot structure of
        None \<Rightarrow> []
      | Some g \<Rightarrow> newline @ ''Git root: '' @ render g)"

text \<open>
  What one run of the program does, up to the moment the child process is started.
  \<open>Exited c e\<close>: the process reported \<open>e\<close> and called \<^verbatim>\<open>process.exit(c)\<close> without starting a
  child. \<open>Spawned tokens dir\<close>: \<^verbatim>\<open>execSync(tokens.join(' '), {cwd: dir})\<close> was called (in
  the mode without a command, on the manager's name alone); the process then ends with
  the child's status. \<open>calls\<close> lists, in order, the functions \<^verbatim>\<open>main\<close> has called;
  \<open>stdout\<close> is what it has passed to \<^verbatim>\<open>console.log\<close>.
\<close>

datatype call =
    Call_findProjectStructure
  | Call_detectPackageManager
  | Call_getExecutionDirectory
  | Call_harmonizeCommand
  | Call_execSync

datatype outcome = Exited nat fatal | Spawned "string list" path

record execution =
  calls :: "call list"
  stdout :: "string list"
  outcome :: outcome

definition cleanArgs :: "string list \<Rightarrow> string list" where
  "cleanArgs args = filter (\<lambda>arg. arg \<noteq> ''--debug'') args"

text \<open>\<open>cwd\<close> is \<^verbatim>\<open>process.cwd()\<close> and \<open>args\<close> is \<^verbatim>\<open>process.argv.slice(2)\<close>.\<close>

definition main :: "filesystem \<Rightarrow> path \<Rightarrow> string list \<Rightarrow> execution" where
  "main fs cwd args =
     (let isDebug = (''--debug'' \<in> set args) in
      case cleanArgs args of
        [] \<Rightarrow>
          (case findProjectStructure fs cwd of
             None \<Rightarrow>
               \<lparr>calls = [Call_findProjectStructure], stdout = [],
                outcome = Exited 1 NoPackageJson\<rparr>
           | Some structure \<Rightarrow>
               (let choice = detectPackageManager fs structure;
                    packageManager = managerName (manager choice);
                    executionDir = localRoot structure
                in \<lparr>calls = [Call_findProjectStructure, Call_detectPackageManager,
                             Call_execSync],
                    stdout =
                      [if isDebug
                       then contextInfo structure choice executionDir @ newline @
                            ''Command: '' @ packageManager
                       else ''Using '' @ packageManager @ '': '' @ packageManager],
                    outcome = Spawned [packageManager] executionDir\<rparr>))
      | command # commandArgs \<Rightarrow>
          (case parseCommand command of
             None \<Rightarrow> \<lparr>calls = [], stdout = [], outcome = Exited 1 (UnsupportedCommand command)\<rparr>
           | Some cmd \<Rightarrow>
               (case findProjectStructure fs cwd of
                  None \<Rightarrow>
                    \<lparr>calls = [Call_findProjectStructure], stdout = [],
                     outcome = Exited 1 NoPackageJson\<rparr>
                | Some structure \<Rightarrow>
                    (let choice = detectPackageManager fs structure;
                         packageManager = managerName (manager choice);
                         executionDir = getExecutionDirectory fs cmd structure
                     in case harmonizeCommand cmd commandArgs (manager choice) of
                          Inl err \<Rightarrow>
                            \<lparr>calls = [Call_findProjectStructure, Call_detectPackageManager,
                                      Call_getExecutionDirectory, Call_harmonizeCommand],
                             stdout = [], outcome = Exited 1 err\<rparr>
                        | Inr finalCommand \<Rightarrow>
                            \<lparr>calls = [Call_findProjectStructure, Call_detectPackageManager,
                                      Call_getExecutionDirectory, Call_harmonizeCommand,
                                      Call_execSync],
                             stdout =
                               [if isDebug
                                then contextInfo structure choice executionDir @ newline @
                                     ''Command: '' @ joinSpace finalCommand
                                else ''Using '' @ packageManager @ '': '' @
                                     joinSpace finalCommand],
                             outcome = Spawned finalCommand executionDir\<rparr>))))"

section \<open>Vocabulary of the statements\<close>

text \<open>
  The directories the walk can examine, nearest first: the start directory and its
  ancestors, without the file-system root. On component lists, \<open>prefix d p\<close> says that
  the directory \<open>d\<close> is \<open>p\<close> or an ancestor of \<open>p\<close>, and \<open>strict_prefix d p\<close> that it is
  a proper ancestor.
\<close>

function ancestors :: "path \<Rightarrow> path list" where
  "ancestors p = (if p = root then [] else p # ancestors (dirname p))"
  by pat_completeness auto
termination
  by (relation "measure length") (auto simp: root_def dirname_def)

definition hasManifest :: "filesystem \<Rightarrow> path \<Rightarrow> bool" where
  "hasManifest fs d = existsSync fs (pathJoin d ''package.json'')"

definition hasGit :: "filesystem \<Rightarrow> path \<Rightarrow> bool" where
  "hasGit fs d = existsSync fs (pathJoin d ''.git'')"

text \<open>The last directory of a list that holds a version-control marker.\<close>

definition lastGit :: "filesystem \<Rightarrow> path list \<Rightarrow> path option" where
  "lastGit fs ds =
     (let gs = filter (hasGit fs) ds in if gs = [] then None else Some (last gs))"

section \<open>Example file systems\<close>

text \<open>
  \<^verbatim>\<open>/w/a\<close> holds a manifest; \<^verbatim>\<open>/w/a/b\<close> and \<^verbatim>\<open>/w/a/b/c\<close> each hold a \<^verbatim>\<open>.git\<close> directory.
\<close>

definition fsNested :: filesystem where
  "fsNested = map_of
     [([''w'', ''a'', ''b'', ''c'', ''.git''], Dir),
      ([''w'', ''a'', ''b'', ''.git''], Dir),
      ([''w'', ''a'', ''package.json''], File (Some (JObj [])))]"

text \<open>The only manifest is \<^verbatim>\<open>/package.json\<close>, in the file-system root.\<close>

definition fsRootOnly :: filesystem where
  "fsRootOnly = map_of [([''home''], Dir), ([''package.json''], File (Some (JObj [])))]"

text \<open>
  A monorepo: \<^verbatim>\<open>/repo\<close> holds \<^verbatim>\<open>.git\<close>, \<^verbatim>\<open>pnpm-workspace.yaml\<close> and a manifest with the
  scripts \<^verbatim>\<open>build\<close> and \<^verbatim>\<open>test\<close>; the package \<^verbatim>\<open>/repo/packages/app\<close> holds a manifest
  with the script \<^verbatim>\<open>lint\<close> only.
\<close>

definition fsRepo :: filesystem where
  "fsRepo = map_of
     [([''repo''], Dir),
      ([''repo'', ''packages''], Dir),
      ([''repo'', ''packages'', ''app''], Dir),
      ([''repo'', ''.git''], Dir),
      ([''repo'', ''pnpm-workspace.yaml''], File None),
      ([''repo'', ''package.json''],
         File (Some (JObj [(''scripts'',
           JObj [(''build'', JStr ''tsc''), (''test'', JStr ''jest'')])]))),
      ([''repo'', ''packages'', ''app'', ''package.json''],
         File (Some (JObj [(''scripts'', JObj [(''lint'', JStr ''eslint'')])])))]"

definition appDir :: path where
  "appDir = [''repo'', ''packages'', ''app'']"

definition repoStructure :: ProjectStructure where
  "repoStructure =
     \<lparr>localRoot = appDir, monorepoRoot = Some [''repo''], gitRoot = Some [''repo'']\<rparr>"

text \<open>
  \<^verbatim>\<open>/proj\<close> holds \<^verbatim>\<open>yarn.lock\<close> and a manifest whose \<^verbatim>\<open>workspaces\<close> field is the empty
  array; it holds no workspace-indicator file.
\<close>

definition fsEmptyWorkspaces :: filesystem where
  "fsEmptyWorkspaces = map_of
     [([''proj''], Dir),
      ([''proj'', ''yarn.lock''], File None),
      ([''proj'', ''package.json''], File (Some (JObj [(''workspaces'', JArr [])])))]"

text \<open>The same with the \<^verbatim>\<open>workspaces\<close> field \<^verbatim>\<open>["packages/*"]\<close>.\<close>

definition fsYarnWorkspaces :: filesystem where
  "fsYarnWorkspaces = map_of
     [([''proj'', ''yarn.lock''], File None),
      ([''proj'', ''package.json''],
         File (Some (JObj [(''workspaces'', JArr [JStr ''packages/*''])])))]"

text \<open>
  Three monorepos for the selection of the manager. \<^verbatim>\<open>/m1\<close> holds \<^verbatim>\<open>yarn.lock\<close>, its
  package \<^verbatim>\<open>/m1/l\<close> holds \<^verbatim>\<open>package-lock.json\<close> and a manifest naming bun. \<^verbatim>\<open>/m2\<close> holds
  a manifest naming pnpm and no lock file, its package \<^verbatim>\<open>/m2/l\<close> holds \<^verbatim>\<open>bun.lock\<close>.
  \<^verbatim>\<open>/m3\<close> holds a manifest naming pnpm, its package \<^verbatim>\<open>/m3/l\<close> one naming yarn, and
  neither holds a lock file.
\<close>

definition fsDetect :: filesystem where
  "fsDetect = map_of
     [([''m1'', ''yarn.lock''], File None),
      ([''m1'', ''l'', ''package-lock.json''], File None),
      ([''m1'', ''l'', ''package.json''],
         File (Some (JObj [(''packageManager'', JStr ''bun@1.0.0'')]))),
      ([''m2'', ''package.json''],
         File (Some (JObj [(''packageManager'', JStr ''pnpm@8.0.0'')]))),
      ([''m2'', ''l'', ''bun.lock''], File None),
      ([''m2'', ''l'', ''package.json''], File (Some (JObj []))),
      ([''m3'', ''package.json''],
         File (Some (JObj [(''packageManager'', JStr ''pnpm@8.0.0'')]))),
      ([''m3'', ''l'', ''package.json''],
         File (Some (JObj [(''packageManager'', JStr ''yarn@1.22.0'')])))]"

definition structureIn :: "string \<Rightarrow> ProjectStructure" where
  "structureIn m = \<lparr>localRoot = [m, ''l''], monorepoRoot = Some [m], gitRoot = None\<rparr>"

text \<open>
  The first lock file of the table present in a directory, with its manager; \<open>None\<close> when
  the directory holds no lock file.
\<close>

definition firstLockFile :: "filesystem \<Rightarrow> path \<Rightarrow> (string \<times> PackageManager) option" where
  "firstLockFile fs dir =
     List.find (\<lambda>(lockFile, m). existsSync fs (pathJoin dir lockFile)) lockFiles"

text \<open>
  The monorepo test (b) in the words of the specification: the parsed manifest
  "declares a non-empty workspaces field (array form or object-with-packages form)".
\<close>

definition declaresNonEmptyWorkspaces :: "jsval \<Rightarrow> bool" where
  "declaresNonEmptyWorkspaces packageJson =
     (case getProp packageJson ''workspaces'' of
        Some (JArr patterns) \<Rightarrow> patterns \<noteq> []
      | Some (JObj kvs) \<Rightarrow>
          (case map_of kvs ''packages'' of
             Some (JArr patterns) \<Rightarrow> patterns \<noteq> []
           | _ \<Rightarrow> False)
      | _ \<Rightarrow> False)"

text \<open>
  \<^verbatim>\<open>/proj\<close> holds \<^verbatim>\<open>yarn.lock\<close> and a manifest that declares nothing.
\<close>

definition fsYarn :: filesystem where
  "fsYarn = map_of
     [([''proj''], Dir),
      ([''proj'', ''yarn.lock''], File None),
      ([''proj'', ''package.json''], File (Some (JObj [])))]"

text \<open>
  The command line of the child process: the string \<^verbatim>\<open>main\<close> passes to \<^verbatim>\<open>execSync\<close>, which
  hands it to a shell.
\<close>

definition childCommandLine :: "execution \<Rightarrow> string option" where
  "childCommandLine e =
     (case outcome e of Spawned tokens dir \<Rightarrow> Some (joinSpace tokens) | Exited c err \<Rightarrow> None)"

text \<open>
  The tokens of a command line: its words, separated by blanks. \<open>splitWords w cs\<close> reads
  \<open>cs\<close> with the word \<open>w\<close> begun.
\<close>

fun splitWords :: "string \<Rightarrow> string \<Rightarrow> string list" where
  "splitWords w [] = (if w = [] then [] else [w])"
| "splitWords w (c # cs) =
     (if c = CHR '' '' then (if w = [] then [] else [w]) @ splitWords [] cs
      else splitWords (w @ [c]) cs)"

definition tokensOf :: "string \<Rightarrow> string list" where
  "tokensOf line = splitWords [] line"

text \<open>The words \<^verbatim>\<open>harmonizeCommand\<close> itself puts on a command line.\<close>

definition fixedWords :: "string list" where
  "fixedWords =
     [''npm'', ''yarn'', ''pnpm'', ''bun'', ''install'', ''add'', ''run'', ''build'', ''dev'',
      ''typecheck'', ''lint'']"

section \<open>The ancestor chain\<close>

declare ancestors.simps [simp del]

lemma ancestors_root [simp]: "ancestors [] = []"
  by (simp add: ancestors.simps root_def)

lemma ancestors_nonroot: "p \<noteq> [] \<Longrightarrow> ancestors p = p # ancestors (butlast p)"
  by (subst ancestors.simps) (simp add: root_def dirname_def)

lemma ancestors_prefix: "d \<in> set (ancestors p) \<Longrightarrow> prefix d p \<and> d \<noteq> []"
proof (induction p rule: ancestors.induct)
  case (1 p)
  show ?case
  proof (cases "p = []")
    case True
    with "1.prems" show ?thesis by simp
  next
    case False
    with "1.prems" have "d = p \<or> d \<in> set (ancestors (butlast p))"
      by (simp add: ancestors_nonroot)
    then show ?thesis
    proof
      assume "d = p"
      with False show ?thesis by simp
    next
      assume "d \<in> set (ancestors (butlast p))"
      with "1.IH" False have "prefix d (butlast p) \<and> d \<noteq> []"
        by (simp add: root_def dirname_def)
      moreover have "prefix (butlast p) p"
        by (rule prefixeq_butlast)
      ultimately show ?thesis
        using prefix_order.trans by blast
    qed
  qed
qed

lemma prefix_ancestors: "prefix d p \<Longrightarrow> d \<noteq> [] \<Longrightarrow> d \<in> set (ancestors p)"
proof (induction p rule: ancestors.induct)
  case (1 p)
  from "1.prems" have ne: "p \<noteq> []" by auto
  show ?case
  proof (cases "d = p")
    case True
    with ne show ?thesis by (simp add: ancestors_nonroot)
  next
    case False
    with "1.prems" have "strict_prefix d p" by (simp add: strict_prefix_def)
    then obtain z zs where "p = d @ z # zs"
      by (rule strict_prefixE')
    then have "prefix d (butlast p)"
      by (simp add: butlast_append)
    with "1.IH" ne "1.prems" have "d \<in> set (ancestors (butlast p))"
      by (simp add: root_def dirname_def)
    with ne show ?thesis by (simp add: ancestors_nonroot)
  qed
qed

lemma set_ancestors: "set (ancestors p) = {d. prefix d p \<and> d \<noteq> []}"
  using ancestors_prefix prefix_ancestors by blast

lemma ancestors_chain: "sorted_wrt (\<lambda>a b. prefix b a) (ancestors p)"
proof (induction p rule: ancestors.induct)
  case (1 p)
  show ?case
  proof (cases "p = []")
    case True
    then show ?thesis by simp
  next
    case False
    have "\<forall>b \<in> set (ancestors (butlast p)). prefix b p"
      using ancestors_prefix prefixeq_butlast prefix_order.trans by blast
    with "1.IH" False show ?thesis
      by (simp add: ancestors_nonroot root_def dirname_def)
  qed
qed

lemma chain_last:
  "sorted_wrt (\<lambda>a b. prefix b a) xs \<Longrightarrow> x \<in> set xs \<Longrightarrow> prefix (last xs) x"
  by (induction xs) (auto)

lemma find_nearest:
  "List.find P (ancestors p) = Some l \<Longrightarrow> m \<in> set (ancestors p) \<Longrightarrow> P m \<Longrightarrow> prefix m l"
proof (induction p rule: ancestors.induct)
  case (1 p)
  show ?case
  proof (cases "p = []")
    case True
    with "1.prems" show ?thesis by simp
  next
    case False
    show ?thesis
    proof (cases "P p")
      case True
      with "1.prems" False have "l = p" by (simp add: ancestors_nonroot)
      with "1.prems" show ?thesis using ancestors_prefix by blast
    next
      case nP: False
      with "1.prems" False have "List.find P (ancestors (butlast p)) = Some l"
        and "m \<in> set (ancestors (butlast p))"
        by (auto simp: ancestors_nonroot)
      with "1.IH" False "1.prems" show ?thesis
        by (simp add: root_def dirname_def)
    qed
  qed
qed

lemma examine_currentDir [simp]: "currentDir (examine fs v) = currentDir v"
  by (simp add: examine_def Let_def)

declare walk.simps [simp del]

lemma walk_root: "currentDir v = [] \<Longrightarrow> walk fs v = v"
  by (subst walk.simps) (simp add: root_def)

lemma walk_stop:
  "currentDir v \<noteq> [] \<Longrightarrow> gitRootVar (examine fs v) \<noteq> None \<Longrightarrow>
   packageJsonDirs (examine fs v) \<noteq> [] \<Longrightarrow> walk fs v = examine fs v"
  by (subst walk.simps) (simp add: root_def Let_def)

lemma walk_step:
  "currentDir v \<noteq> [] \<Longrightarrow>
   \<not> (gitRootVar (examine fs v) \<noteq> None \<and> packageJsonDirs (examine fs v) \<noteq> []) \<Longrightarrow>
   walk fs v = walk fs ((examine fs v)\<lparr>currentDir := butlast (currentDir v)\<rparr>)"
  by (subst walk.simps) (auto simp: root_def Let_def dirname_def)

lemma examine_visited [simp]: "visited (examine fs v) = visited v @ [currentDir v]"
  by (simp add: examine_def Let_def)

lemma examine_gitRootVar [simp]:
  "gitRootVar (examine fs v) =
     (if hasGit fs (currentDir v) then Some (currentDir v) else gitRootVar v)"
  by (simp add: examine_def Let_def hasGit_def)

lemma examine_packageJsonDirs [simp]:
  "packageJsonDirs (examine fs v) =
     packageJsonDirs v @ (if hasManifest fs (currentDir v) then [currentDir v] else [])"
  by (simp add: examine_def Let_def hasManifest_def)

lemma examine_localRootVar [simp]:
  "localRootVar (examine fs v) =
     (if hasManifest fs (currentDir v) \<and> localRootVar v = None then Some (currentDir v)
      else localRootVar v)"
  by (simp add: examine_def Let_def hasManifest_def)

lemma walk_cases [case_names Root Stop Step]:
  assumes "currentDir v = [] \<Longrightarrow> walk fs v = v \<Longrightarrow> Q"
    and "currentDir v \<noteq> [] \<Longrightarrow> gitRootVar (examine fs v) \<noteq> None \<Longrightarrow>
         packageJsonDirs (examine fs v) \<noteq> [] \<Longrightarrow> walk fs v = examine fs v \<Longrightarrow> Q"
    and "currentDir v \<noteq> [] \<Longrightarrow>
         \<not> (gitRootVar (examine fs v) \<noteq> None \<and> packageJsonDirs (examine fs v) \<noteq> []) \<Longrightarrow>
         walk fs v = walk fs ((examine fs v)\<lparr>currentDir := butlast (currentDir v)\<rparr>) \<Longrightarrow> Q"
  shows Q
  using assms walk_root walk_stop walk_step by blast

lemma walk_induct [consumes 0, case_names Root Stop Step]:
  assumes "\<And>v. currentDir v = [] \<Longrightarrow> walk fs v = v \<Longrightarrow> P v"
    and "\<And>v. currentDir v \<noteq> [] \<Longrightarrow> gitRootVar (examine fs v) \<noteq> None \<Longrightarrow>
         packageJsonDirs (examine fs v) \<noteq> [] \<Longrightarrow> walk fs v = examine fs v \<Longrightarrow> P v"
    and "\<And>v. currentDir v \<noteq> [] \<Longrightarrow>
         \<not> (gitRootVar (examine fs v) \<noteq> None \<and> packageJsonDirs (examine fs v) \<noteq> []) \<Longrightarrow>
         walk fs v = walk fs ((examine fs v)\<lparr>currentDir := butlast (currentDir v)\<rparr>) \<Longrightarrow>
         P ((examine fs v)\<lparr>currentDir := butlast (currentDir v)\<rparr>) \<Longrightarrow> P v"
  shows "P v"
proof (induction "length (currentDir v)" arbitrary: v rule: less_induct)
  case less
  show ?case
  proof (cases rule: walk_cases [of v fs])
    case Root
    then show ?thesis by (rule assms(1))
  next
    case Stop
    then show ?thesis by (rule assms(2))
  next
    case Step
    from Step(1) have "length (butlast (currentDir v)) < length (currentDir v)"
      by simp
    then have "P ((examine fs v)\<lparr>currentDir := butlast (currentDir v)\<rparr>)"
      by (intro less) simp
    with Step show ?thesis by (rule assms(3))
  qed
qed

lemma walk_visited:
  "visited v @ ancestors (currentDir v) = A \<Longrightarrow> \<exists>n. visited (walk fs v) = take n A"
proof (induction v rule: walk_induct [where fs = fs])
  case (Root v)
  then have "visited (walk fs v) = take (length A) A" by simp
  then show ?case ..
next
  case (Stop v)
  then have "A = visited (examine fs v) @ ancestors (butlast (currentDir v))"
    by (simp add: ancestors_nonroot)
  then have "visited (walk fs v) = take (length (visited (examine fs v))) A"
    using Stop by simp
  then show ?case ..
next
  case (Step v)
  then show ?case by (simp add: ancestors_nonroot)
qed

lemma lastGit_snoc:
  "lastGit fs (ds @ [d]) = (if hasGit fs d then Some d else lastGit fs ds)"
  by (simp add: lastGit_def Let_def)

lemma walk_gitRootVar:
  "gitRootVar v = lastGit fs (visited v) \<Longrightarrow>
   gitRootVar (walk fs v) = lastGit fs (visited (walk fs v))"
proof (induction v rule: walk_induct [where fs = fs])
  case (Root v)
  then show ?case by simp
next
  case (Stop v)
  then show ?case by (simp add: lastGit_snoc)
next
  case (Step v)
  then show ?case by (simp add: lastGit_snoc)
qed

lemma walk_packageJsonDirs:
  "packageJsonDirs v = filter (hasManifest fs) (visited v) \<Longrightarrow>
   packageJsonDirs (walk fs v) = filter (hasManifest fs) (visited (walk fs v))"
proof (induction v rule: walk_induct [where fs = fs])
  case (Root v)
  then show ?case by simp
next
  case (Stop v)
  then show ?case by simp
next
  case (Step v)
  then show ?case by simp
qed

lemma walk_localRootVar:
  "(localRootVar v = None) = (packageJsonDirs v = []) \<Longrightarrow>
   localRootVar (walk fs v) =
     (case localRootVar v of
        Some l \<Rightarrow> Some l
      | None \<Rightarrow> List.find (hasManifest fs) (ancestors (currentDir v)))"
proof (induction v rule: walk_induct [where fs = fs])
  case (Root v)
  then show ?case by (simp split: option.splits)
next
  case (Stop v)
  then show ?case by (auto simp: ancestors_nonroot split: option.splits if_splits)
next
  case (Step v)
  then show ?case by (auto simp: ancestors_nonroot split: option.splits if_splits)
qed

lemma findProjectStructure_Some:
  assumes "findProjectStructure fs startDir = Some s"
  shows "localRootVar (walk fs (initialVars startDir)) = Some (localRoot s)"
    and "monorepoRoot s =
           findMonorepoRoot fs (gitRootVar (walk fs (initialVars startDir)))
             (packageJsonDirs (walk fs (initialVars startDir)))"
    and "gitRoot s = gitRootVar (walk fs (initialVars startDir))"
  using assms by (auto simp: findProjectStructure_def Let_def split: option.splits)

lemma findProjectStructure_localRoot:
  "map_option localRoot (findProjectStructure fs startDir) =
     List.find (hasManifest fs) (ancestors startDir)"
proof -
  have "localRootVar (walk fs (initialVars startDir)) =
          List.find (hasManifest fs) (ancestors startDir)"
    using walk_localRootVar [of "initialVars startDir" fs] by (simp add: initialVars_def)
  then show ?thesis
    by (simp add: findProjectStructure_def Let_def split: option.splits)
qed

lemma initial_visited:
  "\<exists>n. visited (walk fs (initialVars startDir)) = take n (ancestors startDir)"
  using walk_visited [of "initialVars startDir" "ancestors startDir" fs]
  by (simp add: initialVars_def)

lemma initial_packageJsonDirs:
  "packageJsonDirs (walk fs (initialVars startDir)) =
     filter (hasManifest fs) (visited (walk fs (initialVars startDir)))"
  using walk_packageJsonDirs [of "initialVars startDir" fs] by (simp add: initialVars_def)

lemma initial_gitRootVar:
  "gitRootVar (walk fs (initialVars startDir)) =
     lastGit fs (visited (walk fs (initialVars startDir)))"
  using walk_gitRootVar [of "initialVars startDir" fs]
  by (simp add: initialVars_def lastGit_def)

lemma findMonorepoRoot_Some:
  "findMonorepoRoot fs gr dirs = Some m \<Longrightarrow> m \<in> set dirs \<and> isMonorepoRoot fs m"
  by (induction dirs) (auto split: if_splits)

lemma monorepoRoot_on_chain:
  assumes "findProjectStructure fs startDir = Some s" and "monorepoRoot s = Some m"
  shows "m \<in> set (ancestors startDir) \<and> hasManifest fs m"
proof -
  let ?v = "walk fs (initialVars startDir)"
  from assms have "findMonorepoRoot fs (gitRootVar ?v) (packageJsonDirs ?v) = Some m"
    using findProjectStructure_Some(2) by metis
  then have "m \<in> set (packageJsonDirs ?v)"
    using findMonorepoRoot_Some by blast
  then have m: "m \<in> set (visited ?v)" "hasManifest fs m"
    by (simp_all add: initial_packageJsonDirs)
  obtain n where "visited ?v = take n (ancestors startDir)"
    using initial_visited by blast
  with m(1) have "m \<in> set (ancestors startDir)"
    by (metis in_set_takeD)
  with m(2) show ?thesis by simp
qed

lemmas evaluate =
  findProjectStructure_def walk.simps initialVars_def examine_def Let_def existsSync_def
  readJson_def pathJoin_def root_def dirname_def isMonorepoRoot_def hasMonorepoFile_def hasLockFile_def
  monorepoFiles_def lockFileNames_def startsWith_def render_def hasManifest_def hasGit_def

lemma walk_fsNested:
  "walk fsNested (initialVars [''w'', ''a'', ''b'', ''c'']) =
     \<lparr>currentDir = [''w'', ''a''], localRootVar = Some [''w'', ''a''],
      gitRootVar = Some [''w'', ''a'', ''b''], packageJsonDirs = [[''w'', ''a'']],
      visited = [[''w'', ''a'', ''b'', ''c''], [''w'', ''a'', ''b''], [''w'', ''a'']]\<rparr>"
  by (simp add: evaluate fsNested_def)

lemma find_fsNested:
  "findProjectStructure fsNested [''w'', ''a'', ''b'', ''c''] =
     Some \<lparr>localRoot = [''w'', ''a''], monorepoRoot = None,
           gitRoot = Some [''w'', ''a'', ''b'']\<rparr>"
  by (simp add: evaluate fsNested_def)

lemma find_fsRootOnly: "findProjectStructure fsRootOnly [''home''] = None"
  by (simp add: evaluate fsRootOnly_def)

lemma find_fsRepo: "findProjectStructure fsRepo appDir = Some repoStructure"
  by (simp add: evaluate fsRepo_def appDir_def repoStructure_def)

section \<open>The walk\<close>

text \<open>
  Claim C3. The git boundary the walk records is the last directory holding a
  version-control marker among the directories it has examined; these directories are an
  initial segment of the ancestor chain of the start directory, nearest first, so the
  recorded boundary is the one farthest from the start: it is an ancestor of, or equal
  to, every examined directory that holds a marker. The structure returned carries this
  boundary.
\<close>

theorem gitRoot_last_marker_visited:
  "(\<exists>n. visited (walk fs (initialVars startDir)) = take n (ancestors startDir)) \<and>
   gitRootVar (walk fs (initialVars startDir)) =
     lastGit fs (visited (walk fs (initialVars startDir))) \<and>
   (\<forall>g d. gitRootVar (walk fs (initialVars startDir)) = Some g \<and>
          d \<in> set (visited (walk fs (initialVars startDir))) \<and> hasGit fs d
          \<longrightarrow> prefix g d) \<and>
   (\<forall>s. findProjectStructure fs startDir = Some s
        \<longrightarrow> gitRoot s = lastGit fs (visited (walk fs (initialVars startDir))))"
proof -
  let ?v = "walk fs (initialVars startDir)"
  obtain n where n: "visited ?v = take n (ancestors startDir)"
    using initial_visited by blast
  have git: "gitRootVar ?v = lastGit fs (visited ?v)"
    by (rule initial_gitRootVar)
  have chain: "sorted_wrt (\<lambda>a b. prefix b a) (filter (hasGit fs) (visited ?v))"
    unfolding n by (intro sorted_wrt_filter sorted_wrt_take ancestors_chain)
  have far: "prefix g d"
    if "gitRootVar ?v = Some g" and "d \<in> set (visited ?v)" and "hasGit fs d" for g d
  proof -
    from that(1) git have "g = last (filter (hasGit fs) (visited ?v))"
      by (simp add: lastGit_def Let_def split: if_splits)
    moreover from that(2,3) have "d \<in> set (filter (hasGit fs) (visited ?v))"
      by simp
    ultimately show ?thesis
      using chain_last [OF chain] by blast
  qed
  have "gitRoot s = lastGit fs (visited ?v)"
    if "findProjectStructure fs startDir = Some s" for s
    using findProjectStructure_Some(3) [OF that] git by simp
  with n git far show ?thesis by blast
qed

theorem gitRoot_last_marker_visited_witness:
  "visited (walk fsNested (initialVars [''w'', ''a'', ''b'', ''c''])) =
     [[''w'', ''a'', ''b'', ''c''], [''w'', ''a'', ''b''], [''w'', ''a'']] \<and>
   hasGit fsNested [''w'', ''a'', ''b'', ''c''] \<and>
   gitRootVar (walk fsNested (initialVars [''w'', ''a'', ''b'', ''c''])) =
     Some [''w'', ''a'', ''b''] \<and>
   prefix [''w'', ''a'', ''b''] [''w'', ''a'', ''b'', ''c''] \<and>
   lastGit fsNested (visited (walk fsNested (initialVars [''w'', ''a'', ''b'', ''c''])))
     = Some [''w'', ''a'', ''b'']"
proof -
  have v: "visited (walk fsNested (initialVars [''w'', ''a'', ''b'', ''c''])) =
      [[''w'', ''a'', ''b'', ''c''], [''w'', ''a'', ''b''], [''w'', ''a'']]"
    and g: "gitRootVar (walk fsNested (initialVars [''w'', ''a'', ''b'', ''c''])) =
      Some [''w'', ''a'', ''b'']"
    by (simp_all add: walk_fsNested)
  have h: "hasGit fsNested [''w'', ''a'', ''b'', ''c'']"
    by (simp add: evaluate fsNested_def)
  from v have m: "[''w'', ''a'', ''b'', ''c''] \<in>
      set (visited (walk fsNested (initialVars [''w'', ''a'', ''b'', ''c''])))"
    by simp
  note inst = gitRoot_last_marker_visited [of fsNested "[''w'', ''a'', ''b'', ''c'']"]
  from inst g h m have "prefix [''w'', ''a'', ''b''] [''w'', ''a'', ''b'', ''c'']"
    by blast
  moreover from inst g
  have "lastGit fsNested (visited (walk fsNested (initialVars [''w'', ''a'', ''b'', ''c''])))
      = Some [''w'', ''a'', ''b'']"
    by simp
  ultimately show ?thesis using v g h by simp
qed

text \<open>
  Below the file-system root the resolver finds the nearest manifest: it returns a
  structure exactly when some directory other than the root, on the chain from the start
  directory upwards, holds a manifest, and the local root is then the nearest of these.
\<close>

lemma localRoot_nearest_below_root:
  "(findProjectStructure fs startDir \<noteq> None) =
     (\<exists>d. d \<noteq> root \<and> prefix d startDir \<and> hasManifest fs d) \<and>
   (\<forall>s. findProjectStructure fs startDir = Some s \<longrightarrow>
      localRoot s \<noteq> root \<and> prefix (localRoot s) startDir \<and> hasManifest fs (localRoot s) \<and>
      (\<forall>d. d \<noteq> root \<and> prefix d startDir \<and> hasManifest fs d \<longrightarrow> prefix d (localRoot s)))"
proof -
  let ?found = "List.find (hasManifest fs) (ancestors startDir)"
  have eq: "map_option localRoot (findProjectStructure fs startDir) = ?found"
    by (rule findProjectStructure_localRoot)
  have "(findProjectStructure fs startDir \<noteq> None) = (?found \<noteq> None)"
    using eq by (metis option.map_disc_iff)
  also have "\<dots> = (\<exists>d \<in> set (ancestors startDir). hasManifest fs d)"
    by (auto simp: find_None_iff)
  also have "\<dots> = (\<exists>d. d \<noteq> root \<and> prefix d startDir \<and> hasManifest fs d)"
    by (auto simp: set_ancestors root_def)
  finally have first: "(findProjectStructure fs startDir \<noteq> None) =
      (\<exists>d. d \<noteq> root \<and> prefix d startDir \<and> hasManifest fs d)" .
  have second: "localRoot s \<noteq> root \<and> prefix (localRoot s) startDir \<and>
      hasManifest fs (localRoot s) \<and>
      (\<forall>d. d \<noteq> root \<and> prefix d startDir \<and> hasManifest fs d \<longrightarrow> prefix d (localRoot s))"
    if "findProjectStructure fs startDir = Some s" for s
  proof -
    from that eq have found: "?found = Some (localRoot s)" by simp
    then have "hasManifest fs (localRoot s)" and "localRoot s \<in> set (ancestors startDir)"
      by (auto simp: find_Some_iff)
    moreover have "prefix d (localRoot s)"
      if "d \<noteq> root \<and> prefix d startDir \<and> hasManifest fs d" for d
      using that find_nearest [OF found, of d] by (simp add: set_ancestors root_def)
    ultimately show ?thesis by (simp add: set_ancestors root_def)
  qed
  from first second show ?thesis by blast
qed

text \<open>
  Claim C4 says that the resolver returns a structure whenever a directory on the
  ancestor chain of the start directory, the file-system root included, holds a manifest.
  The program does not: the loop ends on reaching the root without examining it. With
  the only manifest in \<^verbatim>\<open>/\<close>, started in \<^verbatim>\<open>/home\<close> or in \<^verbatim>\<open>/\<close> itself, the resolver
  returns nothing and the program ends with the error that no manifest was found in the
  current directory or its parent directories.
\<close>

theorem manifest_in_root_not_found:
  "prefix root [''home''] \<and> hasManifest fsRootOnly root \<and>
   findProjectStructure fsRootOnly [''home''] = None \<and>
   findProjectStructure fsRootOnly root = None \<and>
   outcome (main fsRootOnly [''home''] [''install'']) = Exited 1 NoPackageJson \<and>
   outcome (main fsRootOnly root [''install'']) = Exited 1 NoPackageJson"
proof -
  have r: "findProjectStructure fsRootOnly root = None"
    by (simp add: evaluate fsRootOnly_def)
  have "prefix root [''home''] \<and> hasManifest fsRootOnly root"
    by (simp add: evaluate fsRootOnly_def)
  with r find_fsRootOnly show ?thesis
    by (simp add: main_def cleanArgs_def)
qed

text \<open>
  Claim C6. When the structure has a monorepo root, it is the local root or one of its
  ancestors (its path is a prefix of the local root's), and so never a descendant of the
  local root.
\<close>

theorem monorepoRoot_above_localRoot:
  assumes "findProjectStructure fs startDir = Some s" and "monorepoRoot s = Some m"
  shows "prefix m (localRoot s) \<and> \<not> strict_prefix (localRoot s) m"
proof -
  from assms have m: "m \<in> set (ancestors startDir)" "hasManifest fs m"
    using monorepoRoot_on_chain by blast+
  have "map_option localRoot (findProjectStructure fs startDir) =
      List.find (hasManifest fs) (ancestors startDir)"
    by (rule findProjectStructure_localRoot)
  with assms(1) have "List.find (hasManifest fs) (ancestors startDir) = Some (localRoot s)"
    by simp
  from find_nearest [OF this m] have "prefix m (localRoot s)" .
  then show ?thesis by auto
qed

theorem monorepoRoot_above_localRoot_witness:
  "findProjectStructure fsRepo appDir = Some repoStructure \<and>
   monorepoRoot repoStructure = Some [''repo''] \<and>
   prefix [''repo''] (localRoot repoStructure) \<and>
   \<not> strict_prefix (localRoot repoStructure) [''repo'']"
proof -
  have m: "monorepoRoot repoStructure = Some [''repo'']"
    by (simp add: repoStructure_def)
  from monorepoRoot_above_localRoot [OF find_fsRepo m] find_fsRepo m
  show ?thesis by simp
qed

text \<open>
  Claim C9. When the structure has a monorepo root, that directory holds a manifest:
  the candidates are the directories in which the walk found one. This holds also when
  the directory passes the monorepo test by a workspace-indicator file alone.
\<close>

theorem monorepoRoot_has_manifest:
  assumes "findProjectStructure fs startDir = Some s" and "monorepoRoot s = Some m"
  shows "existsSync fs (pathJoin m ''package.json'')"
  using monorepoRoot_on_chain [OF assms] by (simp add: hasManifest_def)

theorem monorepoRoot_has_manifest_witness:
  "findProjectStructure fsRepo appDir = Some repoStructure \<and>
   monorepoRoot repoStructure = Some [''repo''] \<and>
   \<not> hasLockFile fsRepo [''repo''] \<and>
   existsSync fsRepo (pathJoin [''repo''] ''pnpm-workspace.yaml'') \<and>
   existsSync fsRepo (pathJoin [''repo''] ''package.json'')"
proof -
  have m: "monorepoRoot repoStructure = Some [''repo'']"
    by (simp add: repoStructure_def)
  have "\<not> hasLockFile fsRepo [''repo''] \<and>
      existsSync fsRepo (pathJoin [''repo''] ''pnpm-workspace.yaml'')"
    by (simp add: evaluate fsRepo_def)
  with monorepoRoot_has_manifest [OF find_fsRepo m] find_fsRepo m
  show ?thesis by simp
qed

section \<open>Command harmonization\<close>

text \<open>
  Claim C8. With bun, \<^verbatim>\<open>install\<close> with at least one argument becomes \<^verbatim>\<open>bun add\<close> followed
  by the arguments, and \<^verbatim>\<open>install\<close> without arguments becomes \<^verbatim>\<open>bun install\<close>; with each
  of the other three managers \<^verbatim>\<open>install\<close> becomes the manager's name, \<^verbatim>\<open>install\<close> and
  the arguments.
\<close>

theorem install_harmonized:
  "(args \<noteq> [] \<longrightarrow> harmonizeCommand Install args Bun = Inr ([''bun'', ''add''] @ args)) \<and>
   harmonizeCommand Install [] Bun = Inr [''bun'', ''install''] \<and>
   (packageManager \<noteq> Bun \<longrightarrow>
      harmonizeCommand Install args packageManager =
        Inr ([managerName packageManager, ''install''] @ args)) \<and>
   harmonizeCommand Install args Npm = Inr ([''npm'', ''install''] @ args) \<and>
   harmonizeCommand Install args Yarn = Inr ([''yarn'', ''install''] @ args) \<and>
   harmonizeCommand Install args Pnpm = Inr ([''pnpm'', ''install''] @ args)"
  by simp

theorem install_harmonized_witness:
  "[''react''] \<noteq> [] \<and>
   harmonizeCommand Install [''react''] Bun = Inr [''bun'', ''add'', ''react''] \<and>
   Yarn \<noteq> Bun \<and>
   harmonizeCommand Install [''react''] Yarn = Inr [''yarn'', ''install'', ''react'']"
  using install_harmonized [of "[''react'']" Yarn] by simp

section \<open>The monorepo test\<close>

text \<open>
  Claim C2, as amended. In a directory that holds a lock file and a manifest and none of
  the workspace-indicator files, the monorepo test succeeds exactly when the manifest
  parses to an object whose \<^verbatim>\<open>workspaces\<close> property is truthy. Every array and every
  object is truthy, also an empty one, so every manifest that declares a non-empty
  workspaces field in the array or the object form passes; a manifest that cannot be
  parsed does not.
\<close>

theorem workspaces_truthy_qualifies:
  assumes "hasLockFile fs dir"
    and "existsSync fs (pathJoin dir ''package.json'')"
    and "\<not> hasMonorepoFile fs dir"
  shows "isMonorepoRoot fs dir =
           (\<exists>kvs ws. readJson fs (pathJoin dir ''package.json'') = Some (JObj kvs) \<and>
                     map_of kvs ''workspaces'' = Some ws \<and> truthy ws) \<and>
         (\<forall>packageJson. readJson fs (pathJoin dir ''package.json'') = Some packageJson \<and>
              declaresNonEmptyWorkspaces packageJson \<longrightarrow> isMonorepoRoot fs dir) \<and>
         (readJson fs (pathJoin dir ''package.json'') = None \<longrightarrow> \<not> isMonorepoRoot fs dir)"
proof -
  have test: "isMonorepoRoot fs dir =
      (case readJson fs (pathJoin dir ''package.json'') of
         None \<Rightarrow> False
       | Some packageJson \<Rightarrow>
           (case getProp packageJson ''workspaces'' of
              None \<Rightarrow> False
            | Some workspaces \<Rightarrow> truthy workspaces))"
    using assms by (simp add: isMonorepoRoot_def)
  have objform: "(case getProp packageJson ''workspaces'' of
                 None \<Rightarrow> False | Some workspaces \<Rightarrow> truthy workspaces) =
      (\<exists>kvs ws. packageJson = JObj kvs \<and> map_of kvs ''workspaces'' = Some ws \<and> truthy ws)"
    for packageJson
    by (cases packageJson) (auto split: option.splits)
  have decl: "(case getProp packageJson ''workspaces'' of
                 None \<Rightarrow> False | Some workspaces \<Rightarrow> truthy workspaces)"
    if "declaresNonEmptyWorkspaces packageJson" for packageJson
    using that by (auto simp: declaresNonEmptyWorkspaces_def split: option.splits jsval.splits)
  have "isMonorepoRoot fs dir =
      (\<exists>kvs ws. readJson fs (pathJoin dir ''package.json'') = Some (JObj kvs) \<and>
                map_of kvs ''workspaces'' = Some ws \<and> truthy ws)"
    by (cases "readJson fs (pathJoin dir ''package.json'')") (simp_all add: test objform)
  moreover have "isMonorepoRoot fs dir"
    if "readJson fs (pathJoin dir ''package.json'') = Some packageJson \<and>
        declaresNonEmptyWorkspaces packageJson" for packageJson
    using that decl [of packageJson] by (simp add: test)
  moreover have "readJson fs (pathJoin dir ''package.json'') = None \<longrightarrow>
      \<not> isMonorepoRoot fs dir"
    by (simp add: test)
  ultimately show ?thesis by blast
qed

theorem workspaces_truthy_qualifies_witness:
  "hasLockFile fsYarnWorkspaces [''proj''] \<and>
   existsSync fsYarnWorkspaces (pathJoin [''proj''] ''package.json'') \<and>
   \<not> hasMonorepoFile fsYarnWorkspaces [''proj''] \<and>
   readJson fsYarnWorkspaces (pathJoin [''proj''] ''package.json'') =
     Some (JObj [(''workspaces'', JArr [JStr ''packages/*''])]) \<and>
   declaresNonEmptyWorkspaces (JObj [(''workspaces'', JArr [JStr ''packages/*''])]) \<and>
   isMonorepoRoot fsYarnWorkspaces [''proj'']"
proof -
  have h: "hasLockFile fsYarnWorkspaces [''proj'']"
    "existsSync fsYarnWorkspaces (pathJoin [''proj''] ''package.json'')"
    "\<not> hasMonorepoFile fsYarnWorkspaces [''proj'']"
    by (simp_all add: evaluate fsYarnWorkspaces_def)
  have r: "readJson fsYarnWorkspaces (pathJoin [''proj''] ''package.json'') =
      Some (JObj [(''workspaces'', JArr [JStr ''packages/*''])])"
    by (simp add: evaluate fsYarnWorkspaces_def)
  have d: "declaresNonEmptyWorkspaces (JObj [(''workspaces'', JArr [JStr ''packages/*''])])"
    by (simp add: declaresNonEmptyWorkspaces_def)
  from workspaces_truthy_qualifies [OF h] r d have "isMonorepoRoot fsYarnWorkspaces [''proj'']"
    by blast
  with h r d show ?thesis by simp
qed

text \<open>
  Claim C2 as stated fails for an empty \<^verbatim>\<open>workspaces\<close> array: the directory holds a lock
  file and a manifest and no indicator file, the manifest does not declare a non-empty
  workspaces field, and the monorepo test succeeds.
\<close>

theorem empty_workspaces_qualifies:
  "hasLockFile fsEmptyWorkspaces [''proj''] \<and>
   existsSync fsEmptyWorkspaces (pathJoin [''proj''] ''package.json'') \<and>
   \<not> hasMonorepoFile fsEmptyWorkspaces [''proj''] \<and>
   readJson fsEmptyWorkspaces (pathJoin [''proj''] ''package.json'') =
     Some (JObj [(''workspaces'', JArr [])]) \<and>
   \<not> declaresNonEmptyWorkspaces (JObj [(''workspaces'', JArr [])]) \<and>
   isMonorepoRoot fsEmptyWorkspaces [''proj'']"
  by (simp add: evaluate fsEmptyWorkspaces_def declaresNonEmptyWorkspaces_def)

section \<open>Selection of the package manager\<close>

lemma findLockFile_find:
  "findLockFile fs dir table =
     List.find (\<lambda>(lockFile, m). existsSync fs (pathJoin dir lockFile)) table"
  by (induction table) auto

lemma findLockFile_first: "findLockFile fs dir lockFiles = firstLockFile fs dir"
  by (simp add: firstLockFile_def findLockFile_find)

lemmas evaluate_detect =
  firstLockFile_def lockFiles_def packageManagerField_def structureIn_def existsSync_def
  readJson_def pathJoin_def

text \<open>
  Claim C5. The selector looks at the monorepo root before the local root, and at the
  lock files of both before any manifest field. A lock file in the monorepo root decides,
  whatever else is present. Failing that, a lock file in the local root decides, also
  against a \<^verbatim>\<open>packageManager\<close> field in the monorepo root's manifest. With no lock file
  in either directory, the field of the monorepo root's manifest decides before the one of
  the local root's manifest.
\<close>

theorem lock_files_first_monorepo_first:
  "(monorepoRoot s = Some m \<and> firstLockFile fs m = Some (f, pm) \<longrightarrow>
      detectPackageManager fs s =
        \<lparr>manager = pm,
         reason = f @ '' at monorepo root ('' @ render (pathJoin m f) @ '')''\<rparr>) \<and>
   ((\<forall>m. monorepoRoot s = Some m \<longrightarrow> firstLockFile fs m = None) \<and>
    firstLockFile fs (localRoot s) = Some (f, pm) \<longrightarrow>
      detectPackageManager fs s =
        \<lparr>manager = pm,
         reason = f @ '' at local ('' @ render (pathJoin (localRoot s) f) @ '')''\<rparr>) \<and>
   (monorepoRoot s = Some m \<and> firstLockFile fs m = None \<and>
    firstLockFile fs (localRoot s) = None \<and> packageManagerField fs m = Some pm \<longrightarrow>
      detectPackageManager fs s =
        \<lparr>manager = pm,
         reason = ''packageManager field at monorepo root ('' @
                  render (pathJoin m ''package.json'') @ '')''\<rparr>) \<and>
   ((\<forall>m. monorepoRoot s = Some m \<longrightarrow>
          firstLockFile fs m = None \<and> packageManagerField fs m = None) \<and>
    firstLockFile fs (localRoot s) = None \<and>
    packageManagerField fs (localRoot s) = Some pm \<longrightarrow>
      detectPackageManager fs s =
        \<lparr>manager = pm,
         reason = ''packageManager field at local ('' @
                  render (pathJoin (localRoot s) ''package.json'') @ '')''\<rparr>)"
  by (cases "monorepoRoot s")
     (auto simp: detectPackageManager_def searchDirs_def location_def findLockFile_first)

theorem lock_files_first_monorepo_first_witness:
  "monorepoRoot (structureIn ''m1'') = Some [''m1''] \<and>
   firstLockFile fsDetect [''m1''] = Some (''yarn.lock'', Yarn) \<and>
   firstLockFile fsDetect (localRoot (structureIn ''m1'')) = Some (''package-lock.json'', Npm) \<and>
   packageManagerField fsDetect (localRoot (structureIn ''m1'')) = Some Bun \<and>
   detectPackageManager fsDetect (structureIn ''m1'') =
     \<lparr>manager = Yarn, reason = ''yarn.lock at monorepo root (/m1/yarn.lock)''\<rparr> \<and>
   monorepoRoot (structureIn ''m2'') = Some [''m2''] \<and>
   firstLockFile fsDetect [''m2''] = None \<and>
   packageManagerField fsDetect [''m2''] = Some Pnpm \<and>
   firstLockFile fsDetect (localRoot (structureIn ''m2'')) = Some (''bun.lock'', Bun) \<and>
   detectPackageManager fsDetect (structureIn ''m2'') =
     \<lparr>manager = Bun, reason = ''bun.lock at local (/m2/l/bun.lock)''\<rparr> \<and>
   monorepoRoot (structureIn ''m3'') = Some [''m3''] \<and>
   firstLockFile fsDetect [''m3''] = None \<and>
   firstLockFile fsDetect (localRoot (structureIn ''m3'')) = None \<and>
   packageManagerField fsDetect [''m3''] = Some Pnpm \<and>
   packageManagerField fsDetect (localRoot (structureIn ''m3'')) = Some Yarn \<and>
   detectPackageManager fsDetect (structureIn ''m3'') =
     \<lparr>manager = Pnpm,
      reason = ''packageManager field at monorepo root (/m3/package.json)''\<rparr>"
proof -
  have m1: "monorepoRoot (structureIn ''m1'') = Some [''m1'']"
    "firstLockFile fsDetect [''m1''] = Some (''yarn.lock'', Yarn)"
    "firstLockFile fsDetect (localRoot (structureIn ''m1'')) = Some (''package-lock.json'', Npm)"
    "packageManagerField fsDetect (localRoot (structureIn ''m1'')) = Some Bun"
    by (simp_all add: evaluate_detect fsDetect_def)
  have m2: "monorepoRoot (structureIn ''m2'') = Some [''m2'']"
    "firstLockFile fsDetect [''m2''] = None"
    "packageManagerField fsDetect [''m2''] = Some Pnpm"
    "firstLockFile fsDetect (localRoot (structureIn ''m2'')) = Some (''bun.lock'', Bun)"
    by (simp_all add: evaluate_detect fsDetect_def)
  have m3: "monorepoRoot (structureIn ''m3'') = Some [''m3'']"
    "firstLockFile fsDetect [''m3''] = None"
    "firstLockFile fsDetect (localRoot (structureIn ''m3'')) = None"
    "packageManagerField fsDetect [''m3''] = Some Pnpm"
    "packageManagerField fsDetect (localRoot (structureIn ''m3'')) = Some Yarn"
    by (simp_all add: evaluate_detect fsDetect_def)
  have r1: "detectPackageManager fsDetect (structureIn ''m1'') =
      \<lparr>manager = Yarn, reason = ''yarn.lock at monorepo root (/m1/yarn.lock)''\<rparr>"
    using lock_files_first_monorepo_first
      [of "structureIn ''m1''" "[''m1'']" fsDetect "''yarn.lock''" Yarn] m1
    by (simp add: render_def pathJoin_def)
  have r2: "detectPackageManager fsDetect (structureIn ''m2'') =
      \<lparr>manager = Bun, reason = ''bun.lock at local (/m2/l/bun.lock)''\<rparr>"
    using lock_files_first_monorepo_first
      [of "structureIn ''m2''" "[''m2'']" fsDetect "''bun.lock''" Bun] m2
    by (simp add: render_def pathJoin_def structureIn_def)
  have r3: "detectPackageManager fsDetect (structureIn ''m3'') =
      \<lparr>manager = Pnpm,
       reason = ''packageManager field at monorepo root (/m3/package.json)''\<rparr>"
    using lock_files_first_monorepo_first
      [of "structureIn ''m3''" "[''m3'']" fsDetect _ Pnpm] m3
    by (simp add: render_def pathJoin_def)
  from m1 m2 m3 r1 r2 r3 show ?thesis by simp
qed

section \<open>The execution directory\<close>

lemma script_command_directory:
  "command \<noteq> Add \<Longrightarrow> command \<noteq> Install \<Longrightarrow>
   getExecutionDirectory fs command s =
     (if hasScript fs (commandName command) (localRoot s) then localRoot s
      else case monorepoRoot s of
             Some m \<Rightarrow> if hasScript fs (commandName command) m then m else localRoot s
           | None \<Rightarrow> localRoot s)"
  by (cases command) (auto simp: getExecutionDirectory_def split: option.splits)

lemma detect_fsRepo:
  "detectPackageManager fsRepo repoStructure = \<lparr>manager = Npm, reason = ''fallback''\<rparr>"
  by (simp add: detectPackageManager_def searchDirs_def lockFiles_def packageManagerField_def
      repoStructure_def appDir_def fsRepo_def existsSync_def readJson_def pathJoin_def)

lemma scripts_fsRepo:
  "\<not> hasScript fsRepo ''test'' appDir" "hasScript fsRepo ''test'' [''repo'']"
  "\<not> hasScript fsRepo ''run'' appDir" "\<not> hasScript fsRepo ''run'' [''repo'']"
  by (simp_all add: hasScript_def appDir_def fsRepo_def existsSync_def readJson_def
      pathJoin_def)

text \<open>
  Claim C1 at the input \<^verbatim>\<open>run test\<close>, started in \<^verbatim>\<open>/repo/packages/app\<close>. The local
  manifest does not declare the script \<^verbatim>\<open>test\<close>, the manifest of the monorepo root
  \<^verbatim>\<open>/repo\<close> does; the program looks for a script named \<^verbatim>\<open>run\<close> in both, finds none, and
  runs \<^verbatim>\<open>npm run test\<close> in the local root.
\<close>

theorem run_ignores_script_argument:
  "findProjectStructure fsRepo appDir = Some repoStructure \<and>
   monorepoRoot repoStructure = Some [''repo''] \<and>
   localRoot repoStructure = appDir \<and>
   \<not> hasScript fsRepo ''test'' appDir \<and>
   hasScript fsRepo ''test'' [''repo''] \<and>
   getExecutionDirectory fsRepo Run repoStructure = appDir \<and>
   outcome (main fsRepo appDir [''run'', ''test'']) = Spawned [''npm'', ''run'', ''test''] appDir"
proof -
  have s: "monorepoRoot repoStructure = Some [''repo'']" "localRoot repoStructure = appDir"
    by (simp_all add: repoStructure_def)
  have d: "getExecutionDirectory fsRepo Run repoStructure = appDir"
    by (simp add: script_command_directory s scripts_fsRepo)
  have "outcome (main fsRepo appDir [''run'', ''test'']) =
      Spawned [''npm'', ''run'', ''test''] appDir"
    by (simp add: main_def cleanArgs_def find_fsRepo detect_fsRepo d)
  with s d scripts_fsRepo find_fsRepo show ?thesis by simp
qed

section \<open>The run of the program\<close>

text \<open>
  Claim C7, as amended. When the arguments without \<^verbatim>\<open>--debug\<close> are \<^verbatim>\<open>run\<close> alone, the
  process exits with code 1 and starts no child. The missing script name is detected by
  \<^verbatim>\<open>harmonizeCommand\<close> itself, which is called after the structure has been resolved, the
  manager selected and the execution directory chosen; when no manifest is found, the
  process reports that instead, and \<^verbatim>\<open>harmonizeCommand\<close> is not called.
\<close>

theorem run_without_script_name:
  assumes "cleanArgs args = [''run'']"
  shows "harmonizeCommand Run [] packageManager = Inl RunRequiresScriptName \<and>
         main fs cwd args =
           (case findProjectStructure fs cwd of
              None \<Rightarrow>
                \<lparr>calls = [Call_findProjectStructure], stdout = [],
                 outcome = Exited 1 NoPackageJson\<rparr>
            | Some structure \<Rightarrow>
                \<lparr>calls = [Call_findProjectStructure, Call_detectPackageManager,
                          Call_getExecutionDirectory, Call_harmonizeCommand],
                 stdout = [], outcome = Exited 1 RunRequiresScriptName\<rparr>)"
  using assms by (simp add: main_def Let_def split: option.splits)

theorem run_without_script_name_witness:
  "cleanArgs [''--debug'', ''run''] = [''run''] \<and>
   main fsRepo appDir [''--debug'', ''run''] =
     \<lparr>calls = [Call_findProjectStructure, Call_detectPackageManager,
               Call_getExecutionDirectory, Call_harmonizeCommand],
      stdout = [], outcome = Exited 1 RunRequiresScriptName\<rparr>"
proof -
  have c: "cleanArgs [''--debug'', ''run''] = [''run'']"
    by (simp add: cleanArgs_def)
  from run_without_script_name [OF c, of Npm fsRepo appDir] c show ?thesis
    by (simp add: find_fsRepo)
qed

text \<open>
  Claim C7 as stated fails in its last part: started in a project with \<^verbatim>\<open>run\<close> and no
  further argument, the program does call \<^verbatim>\<open>harmonizeCommand\<close>.
\<close>

theorem run_without_arguments_reaches_harmonizeCommand:
  "cleanArgs [''run''] = [''run''] \<and>
   Call_harmonizeCommand \<in> set (calls (main fsRepo appDir [''run'']))"
  by (simp add: main_def cleanArgs_def find_fsRepo Let_def)

lemma managerName_not_debug:
  "managerName packageManager \<noteq> ''--debug''" "''--debug'' \<noteq> managerName packageManager"
  by (cases packageManager; simp)+

lemma harmonizeCommand_no_debug:
  "''--debug'' \<notin> set args \<Longrightarrow> harmonizeCommand command args packageManager = Inr tokens \<Longrightarrow>
   ''--debug'' \<notin> set tokens"
  by (cases command; cases packageManager) (auto split: if_splits)

lemma cleanArgs_no_debug: "''--debug'' \<notin> set (cleanArgs args)"
  by (simp add: cleanArgs_def)

lemma cleanArgs_idem: "cleanArgs (cleanArgs args) = cleanArgs args"
  by (simp add: cleanArgs_def)

lemma main_spawned_no_debug:
  assumes "outcome (main fs cwd args) = Spawned tokens dir"
  shows "''--debug'' \<notin> set tokens"
proof (cases "cleanArgs args")
  case Nil
  with assms show ?thesis
    by (auto simp: main_def Let_def managerName_not_debug split: option.splits)
next
  case (Cons command commandArgs)
  have "''--debug'' \<notin> set (command # commandArgs)"
    using cleanArgs_no_debug [of args] Cons by simp
  then have "''--debug'' \<notin> set commandArgs" by simp
  with assms Cons show ?thesis
    by (auto simp: main_def Let_def split: option.splits sum.splits
        dest: harmonizeCommand_no_debug)
qed

lemma main_outcome_cleanArgs:
  "outcome (main fs cwd args) = outcome (main fs cwd (cleanArgs args))"
  "calls (main fs cwd args) = calls (main fs cwd (cleanArgs args))"
  by (auto simp: main_def [of fs cwd args] main_def [of fs cwd "cleanArgs args"]
      cleanArgs_idem Let_def split: list.splits option.splits sum.splits)

lemma splitWords_space:
  "splitWords w (xs @ '' '' @ ys) = splitWords w xs @ splitWords [] ys"
  by (induction xs arbitrary: w) auto

lemma tokensOf_joinSpace: "tokensOf (joinSpace tokens) = concat (map tokensOf tokens)"
proof (induction tokens rule: joinSpace.induct)
  case 1
  then show ?case by (simp add: tokensOf_def)
next
  case (2 t)
  then show ?case by simp
next
  case (3 t u us)
  have "tokensOf (joinSpace (t # u # us)) = tokensOf t @ tokensOf (joinSpace (u # us))"
    using splitWords_space [of "[]" t "joinSpace (u # us)"] by (simp add: tokensOf_def)
  with 3 show ?case by simp
qed

lemma fixedWords_no_debug: "w \<in> set fixedWords \<Longrightarrow> ''--debug'' \<notin> set (tokensOf w)"
  by (auto simp: fixedWords_def tokensOf_def)

lemma managerName_fixed: "managerName packageManager \<in> set fixedWords"
  by (cases packageManager) (simp_all add: fixedWords_def)

lemma harmonizeCommand_tokens:
  "harmonizeCommand command args packageManager = Inr tokens \<Longrightarrow>
   set tokens \<subseteq> set fixedWords \<union> set args"
  by (cases command; cases packageManager) (auto simp: fixedWords_def split: if_splits)

lemma main_spawned_tokens:
  assumes "outcome (main fs cwd args) = Spawned tokens dir"
  shows "set tokens \<subseteq> set fixedWords \<union> set (cleanArgs args)"
proof (cases "cleanArgs args")
  case Nil
  with assms show ?thesis
    using managerName_fixed by (auto simp: main_def Let_def split: option.splits)
next
  case (Cons command commandArgs)
  with assms show ?thesis
    by (auto simp: main_def Let_def split: option.splits sum.splits
        dest!: harmonizeCommand_tokens)
qed

lemma command_line_debug_origin:
  assumes "childCommandLine (main fs cwd args) = Some line"
    and "''--debug'' \<in> set (tokensOf line)"
  shows "\<exists>a \<in> set args. a \<noteq> ''--debug'' \<and> ''--debug'' \<in> set (tokensOf a)"
proof -
  from assms(1) obtain tokens dir
    where sp: "outcome (main fs cwd args) = Spawned tokens dir" and line: "line = joinSpace tokens"
    by (auto simp: childCommandLine_def split: outcome.splits)
  from assms(2) line obtain t where t: "t \<in> set tokens" "''--debug'' \<in> set (tokensOf t)"
    by (auto simp: tokensOf_joinSpace)
  from t(2) have "t \<notin> set fixedWords"
    using fixedWords_no_debug by blast
  with t(1) main_spawned_tokens [OF sp] have "t \<in> set (cleanArgs args)"
    by blast
  then have "t \<in> set args" "t \<noteq> ''--debug''"
    by (simp_all add: cleanArgs_def)
  with t(2) show ?thesis by blast
qed

lemma find_fsYarn:
  "findProjectStructure fsYarn [''proj''] =
     Some \<lparr>localRoot = [''proj''], monorepoRoot = None, gitRoot = None\<rparr>"
  by (simp add: evaluate fsYarn_def)

lemma detect_fsYarn:
  "manager (detectPackageManager fsYarn
     \<lparr>localRoot = [''proj''], monorepoRoot = None, gitRoot = None\<rparr>) = Yarn"
  by (simp add: detectPackageManager_def searchDirs_def lockFiles_def fsYarn_def
      existsSync_def pathJoin_def)

text \<open>
  Claim C10, as amended. Every argument equal to \<^verbatim>\<open>--debug\<close> is removed before the
  command is read: the cleaned arguments do not contain it, no token of the final command
  is \<^verbatim>\<open>--debug\<close>, and the outcome of the run and the functions called depend on the cleaned
  arguments only. The command line of the child is the final command joined by blanks,
  without quoting: it has \<^verbatim>\<open>--debug\<close> among its words only when an argument other than
  \<^verbatim>\<open>--debug\<close> itself has it among its own words. \<^verbatim>\<open>run --debug\<close> behaves as \<^verbatim>\<open>run\<close>
  without arguments: a fatal error, exit code 1.
\<close>

theorem debug_flag_removed:
  "''--debug'' \<notin> set (cleanArgs args) \<and>
   (\<forall>tokens dir. outcome (main fs cwd args) = Spawned tokens dir \<longrightarrow>
      ''--debug'' \<notin> set tokens) \<and>
   outcome (main fs cwd args) = outcome (main fs cwd (cleanArgs args)) \<and>
   calls (main fs cwd args) = calls (main fs cwd (cleanArgs args)) \<and>
   (\<forall>line. childCommandLine (main fs cwd args) = Some line \<and>
      ''--debug'' \<in> set (tokensOf line) \<longrightarrow>
      (\<exists>a \<in> set args. a \<noteq> ''--debug'' \<and> ''--debug'' \<in> set (tokensOf a))) \<and>
   cleanArgs [''run'', ''--debug''] = [''run''] \<and>
   main fs cwd [''run'', ''--debug''] = main fs cwd [''run''] \<and>
   outcome (main fs cwd [''run'', ''--debug'']) =
     Exited 1 (if findProjectStructure fs cwd = None then NoPackageJson
               else RunRequiresScriptName)"
proof -
  have run_same: "main fs cwd [''run'', ''--debug''] = main fs cwd [''run'']"
    by (simp add: main_def cleanArgs_def Let_def split: option.splits)
  have run_exit: "outcome (main fs cwd [''run'', ''--debug'']) =
      Exited 1 (if findProjectStructure fs cwd = None then NoPackageJson
                else RunRequiresScriptName)"
    by (simp add: main_def cleanArgs_def Let_def split: option.splits)
  have run_clean: "cleanArgs [''run'', ''--debug''] = [''run'']"
    by (simp add: cleanArgs_def)
  have tokens: "\<forall>tokens dir. outcome (main fs cwd args) = Spawned tokens dir \<longrightarrow>
      ''--debug'' \<notin> set tokens"
    using main_spawned_no_debug by blast
  have line: "\<forall>line. childCommandLine (main fs cwd args) = Some line \<and>
      ''--debug'' \<in> set (tokensOf line) \<longrightarrow>
      (\<exists>a \<in> set args. a \<noteq> ''--debug'' \<and> ''--debug'' \<in> set (tokensOf a))"
    using command_line_debug_origin [of fs cwd args] by blast
  show ?thesis
    by (intro conjI cleanArgs_no_debug tokens main_outcome_cleanArgs line run_clean
        run_same run_exit)
qed

theorem debug_flag_removed_witness:
  "outcome (main fsRepo appDir [''--debug'', ''run'', ''test'', ''--debug'']) =
     Spawned [''npm'', ''run'', ''test''] appDir \<and>
   ''--debug'' \<notin> set [''npm'', ''run'', ''test''] \<and>
   childCommandLine (main fsRepo appDir [''run'', ''x --debug'', ''--debug'']) =
     Some ''npm run x --debug'' \<and>
   ''--debug'' \<in> set (tokensOf ''npm run x --debug'') \<and>
   ''x --debug'' \<noteq> ''--debug'' \<and>
   ''--debug'' \<in> set (tokensOf ''x --debug'')"
proof -
  have d: "getExecutionDirectory fsRepo Run repoStructure = appDir"
    by (simp add: script_command_directory scripts_fsRepo repoStructure_def)
  have o: "outcome (main fsRepo appDir [''--debug'', ''run'', ''test'', ''--debug'']) =
      Spawned [''npm'', ''run'', ''test''] appDir"
    by (simp add: main_def cleanArgs_def find_fsRepo detect_fsRepo d)
  from debug_flag_removed [of "[''--debug'', ''run'', ''test'', ''--debug'']" fsRepo appDir] o
  have first: "''--debug'' \<notin> set [''npm'', ''run'', ''test'']"
    by blast
  have "outcome (main fsRepo appDir [''run'', ''x --debug'', ''--debug'']) =
      Spawned [''npm'', ''run'', ''x --debug''] appDir"
    by (simp add: main_def cleanArgs_def find_fsRepo detect_fsRepo d)
  then have l: "childCommandLine (main fsRepo appDir [''run'', ''x --debug'', ''--debug'']) =
      Some ''npm run x --debug''"
    by (simp add: childCommandLine_def)
  have t: "''--debug'' \<in> set (tokensOf ''npm run x --debug'')"
    by (simp add: tokensOf_def)
  from debug_flag_removed [of "[''run'', ''x --debug'', ''--debug'']" fsRepo appDir] l t
  obtain a where a: "a \<in> set [''run'', ''x --debug'', ''--debug'']" "a \<noteq> ''--debug''"
    "''--debug'' \<in> set (tokensOf a)"
    by blast
  have "''--debug'' \<notin> set (tokensOf ''run'')"
    by (simp add: tokensOf_def)
  with a have "a = ''x --debug''" by auto
  with a have "''x --debug'' \<noteq> ''--debug'' \<and> ''--debug'' \<in> set (tokensOf ''x --debug'')"
    by simp
  with o first l t show ?thesis by simp
qed

text \<open>
  Claim C10 as stated fails in its middle part: with the arguments \<^verbatim>\<open>add\<close>,
  \<^verbatim>\<open>x --debug\<close> (one argument), \<^verbatim>\<open>--debug\<close>, \<^verbatim>\<open>lodash\<close> in a yarn project, the command
  line of the child is \<^verbatim>\<open>yarn add x --debug lodash\<close>, which contains the token.
\<close>

theorem debug_word_inside_argument:
  "childCommandLine (main fsYarn [''proj''] [''add'', ''x --debug'', ''--debug'', ''lodash'']) =
     Some ''yarn add x --debug lodash'' \<and>
   ''--debug'' \<in> set (tokensOf ''yarn add x --debug lodash'')"
proof -
  have "outcome (main fsYarn [''proj''] [''add'', ''x --debug'', ''--debug'', ''lodash'']) =
      Spawned [''yarn'', ''add'', ''x --debug'', ''lodash''] [''proj'']"
    by (simp add: main_def cleanArgs_def find_fsYarn detect_fsYarn
        getExecutionDirectory_def Let_def)
  then have "childCommandLine
      (main fsYarn [''proj''] [''add'', ''x --debug'', ''--debug'', ''lodash'']) =
      Some ''yarn add x --debug lodash''"
    by (simp add: childCommandLine_def)
  moreover have "''--debug'' \<in> set (tokensOf ''yarn add x --debug lodash'')"
    by (simp add: tokensOf_def)
  ultimately show ?thesis by simp
qed

end
